theory Spec2Isabelle
  imports Complex_Main
begin

section \<open>The drawing canvas of src/components/Canvas.tsx\<close>

text \<open>
  The component keeps its drawing state in React state cells and refs, and its viewport in
  shared values. Every gesture callback and every method of the imperative handle is
  modelled as a function from the state before the call to the state after it. A callback
  reads the values of the latest render, so the model lets every call see the state its
  predecessor left.
\<close>

subsection \<open>Numbers\<close>

text \<open>
  A JavaScript number is a real number, NaN or one of the two infinities. Rounding and overflow
  are not modelled, and there is one zero, which divides like the positive zero. The
  operations follow IEEE 754 on these values: NaN is absorbing, the sum of opposite infinities,
  the product of zero and an infinity, and the quotients of two zeros and of two infinities
  are NaN, and no comparison with NaN holds.
\<close>

datatype number = NaN | NegInfinity | Num real | Infinity

fun num_neg :: "number \<Rightarrow> number" where
  "num_neg NaN = NaN"
| "num_neg NegInfinity = Infinity"
| "num_neg (Num a) = Num (- a)"
| "num_neg Infinity = NegInfinity"

fun num_add :: "number \<Rightarrow> number \<Rightarrow> number" where
  "num_add NaN b = NaN"
| "num_add a NaN = NaN"
| "num_add (Num a) (Num b) = Num (a + b)"
| "num_add Infinity NegInfinity = NaN"
| "num_add NegInfinity Infinity = NaN"
| "num_add Infinity b = Infinity"
| "num_add a Infinity = Infinity"
| "num_add NegInfinity b = NegInfinity"
| "num_add a NegInfinity = NegInfinity"

fun num_mul :: "number \<Rightarrow> number \<Rightarrow> number" where
  "num_mul NaN b = NaN"
| "num_mul a NaN = NaN"
| "num_mul (Num a) (Num b) = Num (a * b)"
| "num_mul (Num a) b = (if a = 0 then NaN else if 0 < a then b else num_neg b)"
| "num_mul a (Num b) = (if b = 0 then NaN else if 0 < b then a else num_neg a)"
| "num_mul Infinity b = b"
| "num_mul NegInfinity b = num_neg b"

fun num_div :: "number \<Rightarrow> number \<Rightarrow> number" where
  "num_div NaN b = NaN"
| "num_div a NaN = NaN"
| "num_div (Num a) (Num b) =
     (if b = 0 then (if a = 0 then NaN else if 0 < a then Infinity else NegInfinity)
      else Num (a / b))"
| "num_div (Num a) b = Num 0"
| "num_div a (Num b) = (if 0 \<le> b then a else num_neg a)"
| "num_div a b = NaN"

text \<open>The comparisons \<^verbatim>\<open><=\<close> and \<^verbatim>\<open><\<close>.\<close>

fun num_le :: "number \<Rightarrow> number \<Rightarrow> bool" where
  "num_le NaN b = False"
| "num_le a NaN = False"
| "num_le (Num a) (Num b) = (a \<le> b)"
| "num_le NegInfinity b = True"
| "num_le a Infinity = True"
| "num_le a b = False"

fun num_less :: "number \<Rightarrow> number \<Rightarrow> bool" where
  "num_less NaN b = False"
| "num_less a NaN = False"
| "num_less (Num a) (Num b) = (a < b)"
| "num_less a NegInfinity = False"
| "num_less Infinity b = False"
| "num_less a b = True"

text \<open>\<^verbatim>\<open>Math.max\<close> and \<^verbatim>\<open>Math.min\<close> of two arguments: NaN as soon as one argument is NaN.\<close>

fun Math_max :: "number \<Rightarrow> number \<Rightarrow> number" where
  "Math_max NaN b = NaN"
| "Math_max a NaN = NaN"
| "Math_max (Num a) (Num b) = Num (max a b)"
| "Math_max Infinity b = Infinity"
| "Math_max a Infinity = Infinity"
| "Math_max NegInfinity b = b"
| "Math_max a NegInfinity = a"

fun Math_min :: "number \<Rightarrow> number \<Rightarrow> number" where
  "Math_min NaN b = NaN"
| "Math_min a NaN = NaN"
| "Math_min (Num a) (Num b) = Num (min a b)"
| "Math_min NegInfinity b = NegInfinity"
| "Math_min a NegInfinity = NegInfinity"
| "Math_min Infinity b = b"
| "Math_min a Infinity = a"

text \<open>
  The usual notation on \<^typ>\<open>number\<close> stands for these operations, and a numeral \<open>n\<close> for
  \<open>Num n\<close>.
\<close>

instantiation number :: "{zero, one, plus, uminus, minus, times, inverse, ord}"
begin

definition zero_number :: number where
  "0 = Num 0"

definition one_number :: number where
  "1 = Num 1"

definition uminus_number :: "number \<Rightarrow> number" where
  "- a = num_neg a"

definition plus_number :: "number \<Rightarrow> number \<Rightarrow> number" where
  "a + b = num_add a b"

definition minus_number :: "number \<Rightarrow> number \<Rightarrow> number" where
  "a - b = num_add a (num_neg b)"

definition times_number :: "number \<Rightarrow> number \<Rightarrow> number" where
  "a * b = num_mul a b"

definition divide_number :: "number \<Rightarrow> number \<Rightarrow> number" where
  "divide a b = num_div a b"

definition inverse_number :: "number \<Rightarrow> number" where
  "inverse a = num_div (Num 1) a"

definition less_eq_number :: "number \<Rightarrow> number \<Rightarrow> bool" where
  "a \<le> b \<longleftrightarrow> num_le a b"

definition less_number :: "number \<Rightarrow> number \<Rightarrow> bool" where
  "a < b \<longleftrightarrow> num_less a b"

instance ..

end

instance number :: semigroup_add
proof
  fix a b c :: number
  show "a + b + c = a + (b + c)"
    unfolding plus_number_def by (cases a; cases b; cases c) simp_all
qed

instance number :: numeral ..

subsection \<open>Data model\<close>

text \<open>\<^verbatim>\<open>type Point = { x: number; y: number }\<close>; the fields are prefixed so that
  \<open>x\<close> and \<open>y\<close> stay free for variables.\<close>

record Point =
  point_x :: number
  point_y :: number

text \<open>The union \<^verbatim>\<open>'pen' | 'highlighter' | 'eraser'\<close>.\<close>

datatype tool = Pen | Highlighter | Eraser

record DrawPath =
  points :: "Point list"
  color :: string
  width :: number
  type :: tool

text \<open>
  The state cells (\<open>paths\<close>, \<open>currentPath\<close>, \<open>backgroundImage\<close>, \<open>tool\<close>), the refs
  (\<open>undoStack\<close>, \<open>redoStack\<close>, \<open>isDrawing\<close>, \<open>isPinching\<close>) and the shared values of the
  viewport. The two stacks are JavaScript arrays used with \<^verbatim>\<open>push\<close> and \<^verbatim>\<open>pop\<close>: the top is the
  last element of the list.
\<close>

record canvas =
  paths :: "DrawPath list"
  currentPath :: "DrawPath option"
  backgroundImage :: "string option"
  tool :: tool
  undoStack :: "DrawPath list"
  redoStack :: "DrawPath list"
  isDrawing :: bool
  isPinching :: bool
  scale :: number
  savedScale :: number
  translateX :: number
  translateY :: number
  savedTranslateX :: number
  savedTranslateY :: number

text \<open>The state of a freshly mounted component (the arguments of the hooks).\<close>

definition initial :: canvas where
  "initial =
     \<lparr>paths = [], currentPath = None, backgroundImage = None, tool = Pen,
      undoStack = [], redoStack = [], isDrawing = False, isPinching = False,
      scale = 1, savedScale = 1, translateX = 0, translateY = 0,
      savedTranslateX = 0, savedTranslateY = 0\<rparr>"

subsection \<open>The environment\<close>

text \<open>
  What the component reads from its host: \<^verbatim>\<open>Platform.OS\<close>, the element behind \<^verbatim>\<open>svgRef\<close>
  with the outcome of \<^verbatim>\<open>element.getBoundingClientRect?.()\<close>, and the window size read once
  by \<^verbatim>\<open>Dimensions.get('window')\<close>.
\<close>

datatype platform = Web | Ios | Android | Windows | Macos

text \<open>
  The outcome of \<^verbatim>\<open>element.getBoundingClientRect?.()\<close>: the method is absent or returns
  nothing, it throws, or it returns a rectangle, of which the code reads \<open>left\<close> and \<open>top\<close>.
\<close>

datatype bounding = NoRect | Throws | Rect number number

record env =
  platformOS :: platform
  svgRef :: "bounding option"
  SCREEN_WIDTH :: number
  SCREEN_HEIGHT :: number

subsection \<open>The imperative handle\<close>

text \<open>
  \<open>undo\<close> copies \<open>paths\<close>, pops the copy, pushes the removed path on \<open>undoStack\<close> and stores
  the copy. The test \<^verbatim>\<open>if (removedPath)\<close> always succeeds on a non-empty array of objects.
\<close>

definition undo :: "canvas \<Rightarrow> canvas" where
  "undo s =
     (if length (paths s) > 0 then
        (let newPaths = butlast (paths s);
             removedPath = last (paths s)
         in s\<lparr>undoStack := undoStack s @ [removedPath], paths := newPaths\<rparr>)
      else s)"

text \<open>\<open>redo\<close> pops \<open>undoStack\<close> and appends the popped path to \<open>paths\<close>.\<close>

definition redo :: "canvas \<Rightarrow> canvas" where
  "redo s =
     (if length (undoStack s) > 0 then
        (let pathToRestore = last (undoStack s)
         in s\<lparr>undoStack := butlast (undoStack s), paths := paths s @ [pathToRestore]\<rparr>)
      else s)"

definition setTool :: "tool \<Rightarrow> canvas \<Rightarrow> canvas" where
  "setTool t s = s\<lparr>tool := t\<rparr>"

definition setBackgroundImage :: "string option \<Rightarrow> canvas \<Rightarrow> canvas" where
  "setBackgroundImage uri s = s\<lparr>backgroundImage := uri\<rparr>"

subsection \<open>Coordinates\<close>

text \<open>
  \<open>getCoordinates\<close> starts from the raw point and overwrites it only on the web platform,
  when the element exists and its rectangle has been read. An exception of the lookup is
  caught before any field is written, so the raw point is returned then.
\<close>

definition getCoordinates :: "env \<Rightarrow> canvas \<Rightarrow> number \<Rightarrow> number \<Rightarrow> Point" where
  "getCoordinates e s ex ey =
     (let point = \<lparr>point_x = ex, point_y = ey\<rparr> in
      if platformOS e = Web then
        (case svgRef e of
           None \<Rightarrow> point
         | Some NoRect \<Rightarrow> point
         | Some Throws \<Rightarrow> point
         | Some (Rect rleft rtop) \<Rightarrow>
             \<lparr>point_x =
                Math_max 0 (Math_min ((ex - rleft - translateX s) / scale s) (SCREEN_WIDTH e)),
              point_y =
                Math_max 0 (Math_min ((ey - rtop - translateY s) / scale s) (SCREEN_HEIGHT e))\<rparr>)
      else point)"

subsection \<open>The draw gesture\<close>

definition drawStart :: "env \<Rightarrow> canvas \<Rightarrow> number \<Rightarrow> number \<Rightarrow> canvas" where
  "drawStart e s ex ey =
     (if isPinching s then s
      else
        (let point = getCoordinates e s ex ey;
             newPath =
               \<lparr>points = [point],
                color =
                  (if tool s = Highlighter then ''rgba(255, 255, 0, 0.5)''
                   else if tool s = Eraser then ''white''
                   else ''black''),
                width = (if tool s = Highlighter then 20 else if tool s = Eraser then 30 else 2),
                type = tool s\<rparr>
         in s\<lparr>isDrawing := True, currentPath := Some newPath\<rparr>))"

definition drawUpdate :: "env \<Rightarrow> canvas \<Rightarrow> number \<Rightarrow> number \<Rightarrow> canvas" where
  "drawUpdate e s ex ey =
     (if \<not> isDrawing s \<or> currentPath s = None \<or> isPinching s then s
      else
        (let point = getCoordinates e s ex ey
         in s\<lparr>currentPath :=
                (case currentPath s of
                   None \<Rightarrow> None
                 | Some prev \<Rightarrow> Some (prev\<lparr>points := points prev @ [point]\<rparr>))\<rparr>))"

definition drawEnd :: "canvas \<Rightarrow> canvas" where
  "drawEnd s =
     (if \<not> isDrawing s \<or> currentPath s = None then s
      else
        (case currentPath s of
           None \<Rightarrow> s
         | Some cp \<Rightarrow>
             s\<lparr>paths := paths s @ [cp], currentPath := None, isDrawing := False,
               redoStack := []\<rparr>))"

definition drawFinalize :: "canvas \<Rightarrow> canvas" where
  "drawFinalize s = s\<lparr>isDrawing := False, currentPath := None\<rparr>"

subsection \<open>The pinch and pan gestures\<close>

definition pinchStart :: "canvas \<Rightarrow> canvas" where
  "pinchStart s = s\<lparr>isPinching := True, savedScale := scale s\<rparr>"

definition pinchUpdate :: "canvas \<Rightarrow> number \<Rightarrow> canvas" where
  "pinchUpdate s k = s\<lparr>scale := Math_min (Math_max (savedScale s * k) 0.5) 3\<rparr>"

definition pinchEnd :: "canvas \<Rightarrow> canvas" where
  "pinchEnd s = s\<lparr>isPinching := False\<rparr>"

definition panStart :: "canvas \<Rightarrow> canvas" where
  "panStart s = s\<lparr>savedTranslateX := translateX s, savedTranslateY := translateY s\<rparr>"

definition panUpdate :: "canvas \<Rightarrow> number \<Rightarrow> number \<Rightarrow> canvas" where
  "panUpdate s dx dy =
     s\<lparr>translateX := savedTranslateX s + dx, translateY := savedTranslateY s + dy\<rparr>"

text \<open>
  On release the translation is sent to its clamped value through \<^verbatim>\<open>withSpring\<close>; the model
  stores the value the animation settles on.
\<close>

definition panEnd :: "env \<Rightarrow> canvas \<Rightarrow> canvas" where
  "panEnd e s =
     (let maxTranslateX = ((scale s - 1) * SCREEN_WIDTH e) / 2;
          maxTranslateY = ((scale s - 1) * SCREEN_HEIGHT e) / 2
      in s\<lparr>translateX := Math_min (Math_max (translateX s) (- maxTranslateX)) maxTranslateX,
           translateY := Math_min (Math_max (translateY s) (- maxTranslateY)) maxTranslateY\<rparr>)"

subsection \<open>Event sequences\<close>

datatype event =
    DrawStart number number
  | DrawUpdate number number
  | DrawEnd
  | DrawFinalize
  | PinchStart
  | PinchUpdate number
  | PinchEnd
  | PanStart
  | PanUpdate number number
  | PanEnd
  | Undo
  | Redo
  | SetTool tool
  | SetBackgroundImage "string option"

fun step :: "env \<Rightarrow> canvas \<Rightarrow> event \<Rightarrow> canvas" where
  "step e s (DrawStart ex ey) = drawStart e s ex ey"
| "step e s (DrawUpdate ex ey) = drawUpdate e s ex ey"
| "step e s DrawEnd = drawEnd s"
| "step e s DrawFinalize = drawFinalize s"
| "step e s PinchStart = pinchStart s"
| "step e s (PinchUpdate k) = pinchUpdate s k"
| "step e s PinchEnd = pinchEnd s"
| "step e s PanStart = panStart s"
| "step e s (PanUpdate dx dy) = panUpdate s dx dy"
| "step e s PanEnd = panEnd e s"
| "step e s Undo = undo s"
| "step e s Redo = redo s"
| "step e s (SetTool t) = setTool t s"
| "step e s (SetBackgroundImage uri) = setBackgroundImage uri s"

fun run :: "env \<Rightarrow> canvas \<Rightarrow> event list \<Rightarrow> canvas" where
  "run e s [] = s"
| "run e s (ev # evs) = run e (step e s ev) evs"

subsection \<open>Rendering\<close>

text \<open>
  The properties of the \<^verbatim>\<open>SvgPath\<close> element that \<open>renderPath\<close> returns. The conversion of a
  number to text inside the template literals is the parameter \<open>fmt\<close>.
\<close>

record SvgPath =
  d :: string
  stroke :: string
  strokeWidth :: number
  strokeLinecap :: string
  strokeLinejoin :: string
  fill :: string

text \<open>The callback of \<^verbatim>\<open>reduce\<close>, with the accumulator, the point and its index.\<close>

definition reducer :: "(number \<Rightarrow> string) \<Rightarrow> string \<Rightarrow> Point \<Rightarrow> nat \<Rightarrow> string" where
  "reducer fmt acc point index =
     (if index = 0 then ''M '' @ fmt (point_x point) @ '' '' @ fmt (point_y point)
      else acc @ '' L '' @ fmt (point_x point) @ '' '' @ fmt (point_y point))"

text \<open>\<^verbatim>\<open>Array.prototype.reduce\<close> with an initial value: left to right, counting the index.\<close>

fun reduce :: "(string \<Rightarrow> Point \<Rightarrow> nat \<Rightarrow> string) \<Rightarrow> string \<Rightarrow> nat \<Rightarrow> Point list \<Rightarrow> string" where
  "reduce f acc index [] = acc"
| "reduce f acc index (p # ps) = reduce f (f acc p index) (Suc index) ps"

definition renderPath :: "(number \<Rightarrow> string) \<Rightarrow> canvas \<Rightarrow> DrawPath \<Rightarrow> SvgPath option" where
  "renderPath fmt s path =
     (if length (points path) = 0 then None
      else
        Some \<lparr>d = reduce (reducer fmt) [] 0 (points path),
              stroke = color path,
              strokeWidth = width path / scale s,
              strokeLinecap = ''round'',
              strokeLinejoin = ''round'',
              fill = ''none''\<rparr>)"

text \<open>
  The polyline of the specification: a move-to to the first point, then a line-to for every
  later point, in order, and nothing after them.
\<close>

definition moveTo :: "(number \<Rightarrow> string) \<Rightarrow> Point \<Rightarrow> string" where
  "moveTo fmt p = ''M '' @ fmt (point_x p) @ '' '' @ fmt (point_y p)"

definition lineTo :: "(number \<Rightarrow> string) \<Rightarrow> Point \<Rightarrow> string" where
  "lineTo fmt p = '' L '' @ fmt (point_x p) @ '' '' @ fmt (point_y p)"

definition polyline :: "(number \<Rightarrow> string) \<Rightarrow> Point \<Rightarrow> Point list \<Rightarrow> string" where
  "polyline fmt p ps = moveTo fmt p @ concat (map (lineTo fmt) ps)"

subsection \<open>The coordinate formula of the specification\<close>

text \<open>
  The logical point as the specification words it: the screen coordinate minus the origin of
  the canvas minus the translation, divided by the scale, then clamped componentwise to the
  canvas.
\<close>

definition clampTo :: "number \<Rightarrow> number \<Rightarrow> number" where
  "clampTo hi v = Math_max 0 (Math_min v hi)"

definition logical :: "env \<Rightarrow> canvas \<Rightarrow> number \<Rightarrow> number \<Rightarrow> number \<Rightarrow> number \<Rightarrow> Point" where
  "logical e s originX originY ex ey =
     \<lparr>point_x = clampTo (SCREEN_WIDTH e) ((ex - originX - translateX s) / scale s),
      point_y = clampTo (SCREEN_HEIGHT e) ((ey - originY - translateY s) / scale s)\<rparr>"

subsection \<open>Classes of events\<close>



subsection \<open>Sample inputs\<close>

text \<open>A phone whose canvas has a measured rectangle at the origin, and a browser window.\<close>

definition phone :: env where
  "phone = \<lparr>platformOS = Ios, svgRef = Some (Rect 0 0), SCREEN_WIDTH = 400, SCREEN_HEIGHT = 800\<rparr>"

definition browser :: env where
  "browser = \<lparr>platformOS = Web, svgRef = Some (Rect 10 20), SCREEN_WIDTH = 400, SCREEN_HEIGHT = 800\<rparr>"

definition penStroke :: "Point list \<Rightarrow> DrawPath" where
  "penStroke ps = \<lparr>points = ps, color = ''black'', width = 2, type = Pen\<rparr>"

definition pt :: "number \<Rightarrow> number \<Rightarrow> Point" where
  "pt a b = \<lparr>point_x = a, point_y = b\<rparr>"

text \<open>A stand-in for the conversion of a number to text, right on the numbers 1 to 4.\<close>

definition digit :: "number \<Rightarrow> string" where
  "digit r = (if r = 1 then ''1'' else if r = 2 then ''2'' else if r = 3 then ''3''
              else if r = 4 then ''4'' else ''?'')"

section \<open>Properties\<close>

subsection \<open>Auxiliary facts\<close>

lemma numeral_number: "(numeral k :: number) = Num (numeral k)"
  by (induction k) (simp_all only: numeral.simps one_number_def plus_number_def num_add.simps)

lemmas number_simps =
  zero_number_def one_number_def uminus_number_def plus_number_def minus_number_def
  times_number_def divide_number_def less_eq_number_def less_number_def numeral_number

lemma run_append: "run e s (evs @ evs') = run e (run e s evs) evs'"
  by (induction evs arbitrary: s) simp_all


lemmas sample_defs = phone_def browser_def penStroke_def pt_def initial_def





lemma reduce_lineTo:
  "0 < index \<Longrightarrow> reduce (reducer fmt) acc index ps = acc @ concat (map (lineTo fmt) ps)"
  by (induction ps arbitrary: acc index) (simp_all add: reducer_def lineTo_def)

subsection \<open>Undo and redo\<close>

text \<open>
  C3. For every state whose committed paths are not empty, \<open>undo\<close> removes the last path and
  pushes it on the undo stack, and \<open>redo\<close> right after it puts the very same path back at the
  tail: the committed paths, and with them the whole state, are as before the two calls.
\<close>

theorem undo_redo_roundtrip:
  assumes "paths s \<noteq> []"
  shows "paths (undo s) = butlast (paths s)
       \<and> undoStack (undo s) = undoStack s @ [last (paths s)]
       \<and> paths (redo (undo s)) = paths s
       \<and> redo (undo s) = s"
  using assms by (simp add: undo_def redo_def Let_def)

theorem undo_redo_roundtrip_witness:
  "paths (initial\<lparr>paths := [penStroke [pt 1 1], penStroke [pt 2 2, pt 3 3]]\<rparr>) \<noteq> []
   \<and> paths (undo (initial\<lparr>paths := [penStroke [pt 1 1], penStroke [pt 2 2, pt 3 3]]\<rparr>))
       = [penStroke [pt 1 1]]
   \<and> paths (redo (undo (initial\<lparr>paths := [penStroke [pt 1 1], penStroke [pt 2 2, pt 3 3]]\<rparr>)))
       = [penStroke [pt 1 1], penStroke [pt 2 2, pt 3 3]]"
  using undo_redo_roundtrip [of "initial\<lparr>paths := [penStroke [pt 1 1], penStroke [pt 2 2, pt 3 3]]\<rparr>"]
  by simp

text \<open>
  C5. \<open>undo\<close> on a state without committed paths and \<open>redo\<close> on a state with an empty undo
  stack return the state they were given, every field of it; both are total functions, so
  neither call fails.
\<close>

theorem invalid_requests_are_noops:
  "(paths s = [] \<longrightarrow> undo s = s) \<and> (undoStack s = [] \<longrightarrow> redo s = s)"
  by (simp add: undo_def redo_def)

theorem invalid_requests_are_noops_witness:
  "paths initial = [] \<and> undoStack initial = [] \<and> undo initial = initial \<and> redo initial = initial"
  using invalid_requests_are_noops [of initial] by (simp add: initial_def)

text \<open>
  C1. The claim: after \<open>undo\<close> and a new committed stroke, \<open>redo\<close> restores nothing. The end of
  the draw gesture empties \<open>redoStack\<close>, a stack nothing else reads or writes, while \<open>redo\<close>
  pops \<open>undoStack\<close>, where \<open>undo\<close> pushed. So on the phone: draw a stroke at (1, 1), undo it,
  draw a stroke at (5, 5), redo. The committed paths hold the new stroke alone before the
  redo, the undo stack still holds the first stroke, and the redo puts it back after the new
  one.
\<close>

theorem redo_after_new_stroke_restores:
  "paths (run phone initial [DrawStart 1 1, DrawEnd, Undo, DrawStart 5 5, DrawEnd])
     = [penStroke [pt 5 5]]
   \<and> undoStack (run phone initial [DrawStart 1 1, DrawEnd, Undo, DrawStart 5 5, DrawEnd])
     = [penStroke [pt 1 1]]
   \<and> redoStack (run phone initial [DrawStart 1 1, DrawEnd, Undo, DrawStart 5 5, DrawEnd]) = []
   \<and> paths (run phone initial [DrawStart 1 1, DrawEnd, Undo, DrawStart 5 5, DrawEnd, Redo])
     = [penStroke [pt 5 5], penStroke [pt 1 1]]"
  by (simp add: sample_defs drawStart_def drawEnd_def undo_def redo_def getCoordinates_def)

text \<open>The same for every state: no handler of the draw gesture touches the undo stack.\<close>

lemma draw_keeps_undoStack:
  "undoStack (drawStart e s ex ey) = undoStack s"
  "undoStack (drawUpdate e s ex ey) = undoStack s"
  "undoStack (drawEnd s) = undoStack s"
  "undoStack (drawFinalize s) = undoStack s"
  by (simp_all add: drawStart_def drawUpdate_def drawEnd_def drawFinalize_def Let_def
      split: option.splits)

subsection \<open>The viewport\<close>




subsection \<open>The draw gesture\<close>

text \<open>
  C10. Whatever events came before, also the end of the gesture, after the finalisation of
  the draw gesture there is no path in progress and the drawing flag is off.
\<close>

theorem finalize_clears_stroke:
  "currentPath (run e s (evs @ [DrawFinalize])) = None
   \<and> \<not> isDrawing (run e s (evs @ [DrawFinalize]))"
  by (simp add: run_append drawFinalize_def)

theorem finalize_clears_stroke_witness:
  "currentPath (run phone initial [DrawStart 1 1, DrawUpdate 2 2]) = Some (penStroke [pt 1 1, pt 2 2])
   \<and> currentPath (run phone initial ([DrawStart 1 1, DrawUpdate 2 2] @ [DrawFinalize])) = None
   \<and> \<not> isDrawing (run phone initial ([DrawStart 1 1, DrawUpdate 2 2] @ [DrawFinalize]))"
  using finalize_clears_stroke [of phone initial "[DrawStart 1 1, DrawUpdate 2 2]"]
  by (simp add: sample_defs drawStart_def drawUpdate_def getCoordinates_def)

text \<open>
  C2. The claim: a pinch that starts during a draw gesture cancels the stroke in progress,
  which is then never committed, also not by the end of the draw gesture. The start and the
  update of the draw gesture return early while \<open>isPinching\<close> is set; the end of the draw
  gesture does not read the flag. So on the phone: start a stroke at (1, 1), extend it to
  (2, 2), start a pinch, move to (3, 3), end the draw gesture. The start of the pinch leaves
  the stroke in progress, the update during the pinch adds no point, and the end commits the
  stroke of two points while the pinch is still active.
\<close>

theorem draw_end_commits_during_pinch:
  "currentPath (run phone initial [DrawStart 1 1, DrawUpdate 2 2, PinchStart])
     = Some (penStroke [pt 1 1, pt 2 2])
   \<and> currentPath (run phone initial [DrawStart 1 1, DrawUpdate 2 2, PinchStart, DrawUpdate 3 3])
     = Some (penStroke [pt 1 1, pt 2 2])
   \<and> isPinching (run phone initial [DrawStart 1 1, DrawUpdate 2 2, PinchStart, DrawUpdate 3 3, DrawEnd])
   \<and> paths (run phone initial [DrawStart 1 1, DrawUpdate 2 2, PinchStart, DrawUpdate 3 3, DrawEnd])
     = [penStroke [pt 1 1, pt 2 2]]"
  by (simp add: sample_defs drawStart_def drawUpdate_def drawEnd_def pinchStart_def
      getCoordinates_def)

text \<open>What the flag does, in every state: it blocks the start and the update, not the end.\<close>

lemma draw_suppressed_while_pinching:
  assumes "isPinching s"
  shows "drawStart e s ex ey = s" and "drawUpdate e s ex ey = s"
  using assms by (simp_all add: drawStart_def drawUpdate_def)

lemma drawEnd_commits:
  assumes "isDrawing s" and "currentPath s = Some cp"
  shows "paths (drawEnd s) = paths s @ [cp]"
  using assms by (simp add: drawEnd_def)

text \<open>
  C6. A draw gesture that starts while no pinch is active creates the path in progress with
  one point, the converted start coordinate, and the style of the active tool: the pen draws
  \<open>black\<close> with width 2, the highlighter \<open>rgba(255, 255, 0, 0.5)\<close> with width 20, the eraser
  \<open>white\<close> with width 30.
\<close>

theorem draw_start_style:
  assumes "\<not> isPinching s"
  shows "currentPath (drawStart e s ex ey) =
           Some \<lparr>points = [getCoordinates e s ex ey],
                 color = (case tool s of Pen \<Rightarrow> ''black''
                          | Highlighter \<Rightarrow> ''rgba(255, 255, 0, 0.5)''
                          | Eraser \<Rightarrow> ''white''),
                 width = (case tool s of Pen \<Rightarrow> 2 | Highlighter \<Rightarrow> 20 | Eraser \<Rightarrow> 30),
                 type = tool s\<rparr>"
  using assms by (cases "tool s") (simp_all add: drawStart_def)

theorem draw_start_style_witness:
  "\<not> isPinching (setTool Highlighter initial)
   \<and> currentPath (drawStart phone (setTool Highlighter initial) 7 9) =
       Some \<lparr>points = [pt 7 9], color = ''rgba(255, 255, 0, 0.5)'', width = 20,
             type = Highlighter\<rparr>"
  using draw_start_style [of "setTool Highlighter initial" phone 7 9]
  by (simp add: sample_defs setTool_def getCoordinates_def)






subsection \<open>Coordinates\<close>

text \<open>
  C9, as claimed: whenever the origin of the canvas is known, the stored point is the clamped
  formula. On the phone the rectangle of the canvas is known to be at the origin, and after a
  pinch to the scale 2 the formula sends (10, 10) to (5, 5); the code is not on the web
  platform there and stores (10, 10), at the start of a stroke and at its update.
\<close>

theorem raw_point_off_web:
  "svgRef phone = Some (Rect 0 0)
   \<and> scale (run phone initial [PinchStart, PinchUpdate 2, PinchEnd]) = 2
   \<and> logical phone (run phone initial [PinchStart, PinchUpdate 2, PinchEnd]) 0 0 10 10 = pt 5 5
   \<and> getCoordinates phone (run phone initial [PinchStart, PinchUpdate 2, PinchEnd]) 10 10
       = pt 10 10
   \<and> getCoordinates phone (run phone initial [PinchStart, PinchUpdate 2, PinchEnd]) 10 10
       \<noteq> logical phone (run phone initial [PinchStart, PinchUpdate 2, PinchEnd]) 0 0 10 10
   \<and> currentPath (run phone initial
        [PinchStart, PinchUpdate 2, PinchEnd, DrawStart 10 10, DrawUpdate 10 10])
       = Some (penStroke [pt 10 10, pt 10 10])"
  by (simp add: sample_defs pinchStart_def pinchUpdate_def pinchEnd_def drawStart_def
      drawUpdate_def getCoordinates_def logical_def clampTo_def number_simps)

text \<open>The point that the draw gesture stores is the one \<open>getCoordinates\<close> returns.\<close>

lemma drawStart_stores:
  assumes "\<not> isPinching s"
  shows "map_option points (currentPath (drawStart e s ex ey)) = Some [getCoordinates e s ex ey]"
  using assms by (simp add: drawStart_def)

lemma drawUpdate_stores:
  assumes "isDrawing s" and "currentPath s = Some p" and "\<not> isPinching s"
  shows "currentPath (drawUpdate e s ex ey)
           = Some (p\<lparr>points := points p @ [getCoordinates e s ex ey]\<rparr>)"
  using assms by (simp add: drawUpdate_def)

lemma getCoordinates_web:
  assumes "platformOS e = Web" and "svgRef e = Some (Rect originX originY)"
  shows "getCoordinates e s ex ey = logical e s originX originY ex ey"
  using assms by (simp add: getCoordinates_def logical_def clampTo_def)

lemma getCoordinates_raw:
  assumes "platformOS e \<noteq> Web \<or> svgRef e = None \<or> svgRef e = Some NoRect
             \<or> svgRef e = Some Throws"
  shows "getCoordinates e s ex ey = \<lparr>point_x = ex, point_y = ey\<rparr>"
  using assms by (auto simp: getCoordinates_def Let_def)

lemma clampTo_inside:
  assumes "0 \<le> hi" and "v \<noteq> NaN"
  shows "0 \<le> clampTo hi v \<and> clampTo hi v \<le> hi"
  using assms by (cases hi; cases v) (simp_all add: clampTo_def number_simps)

text \<open>
  C9, amended. On the web platform, when the rectangle of the canvas element has been read,
  the point that the start of a stroke stores and the point that an update appends are the
  screen coordinate minus the origin of the rectangle minus the translation, divided by the
  scale and clamped componentwise; each component lies inside the canvas when the quotient is
  not NaN and the side of the canvas is not negative. In every other case (another platform,
  no element, no rectangle, a lookup that throws) the raw coordinate is stored unchanged.
\<close>

theorem coordinate_conversion:
  "(platformOS e = Web \<and> svgRef e = Some (Rect originX originY) \<longrightarrow>
      getCoordinates e s ex ey = logical e s originX originY ex ey
    \<and> (\<not> isPinching s \<longrightarrow>
         map_option points (currentPath (drawStart e s ex ey))
           = Some [logical e s originX originY ex ey])
    \<and> (isDrawing s \<and> currentPath s = Some p \<and> \<not> isPinching s \<longrightarrow>
         currentPath (drawUpdate e s ex ey)
           = Some (p\<lparr>points := points p @ [logical e s originX originY ex ey]\<rparr>)))
   \<and> (platformOS e \<noteq> Web \<or> svgRef e = None \<or> svgRef e = Some NoRect
        \<or> svgRef e = Some Throws \<longrightarrow>
      getCoordinates e s ex ey = \<lparr>point_x = ex, point_y = ey\<rparr>
    \<and> (\<not> isPinching s \<longrightarrow>
         map_option points (currentPath (drawStart e s ex ey))
           = Some [\<lparr>point_x = ex, point_y = ey\<rparr>])
    \<and> (isDrawing s \<and> currentPath s = Some p \<and> \<not> isPinching s \<longrightarrow>
         currentPath (drawUpdate e s ex ey)
           = Some (p\<lparr>points := points p @ [\<lparr>point_x = ex, point_y = ey\<rparr>]\<rparr>)))
   \<and> (0 \<le> SCREEN_WIDTH e \<and> (ex - originX - translateX s) / scale s \<noteq> NaN \<longrightarrow>
        0 \<le> point_x (logical e s originX originY ex ey)
      \<and> point_x (logical e s originX originY ex ey) \<le> SCREEN_WIDTH e)
   \<and> (0 \<le> SCREEN_HEIGHT e \<and> (ey - originY - translateY s) / scale s \<noteq> NaN \<longrightarrow>
        0 \<le> point_y (logical e s originX originY ex ey)
      \<and> point_y (logical e s originX originY ex ey) \<le> SCREEN_HEIGHT e)"
proof -
  have web: "getCoordinates e s ex ey = logical e s originX originY ex ey"
    if "platformOS e = Web \<and> svgRef e = Some (Rect originX originY)"
    using that by (simp add: getCoordinates_web)
  have raw: "getCoordinates e s ex ey = \<lparr>point_x = ex, point_y = ey\<rparr>"
    if "platformOS e \<noteq> Web \<or> svgRef e = None \<or> svgRef e = Some NoRect
          \<or> svgRef e = Some Throws"
    using that by (rule getCoordinates_raw)
  have start: "map_option points (currentPath (drawStart e s ex ey))
        = Some [getCoordinates e s ex ey]" if "\<not> isPinching s"
    using that by (rule drawStart_stores)
  have update: "currentPath (drawUpdate e s ex ey)
        = Some (p\<lparr>points := points p @ [getCoordinates e s ex ey]\<rparr>)"
    if "isDrawing s \<and> currentPath s = Some p \<and> \<not> isPinching s"
    using that by (simp add: drawUpdate_stores)
  have inside_x: "0 \<le> point_x (logical e s originX originY ex ey)
      \<and> point_x (logical e s originX originY ex ey) \<le> SCREEN_WIDTH e"
    if "0 \<le> SCREEN_WIDTH e \<and> (ex - originX - translateX s) / scale s \<noteq> NaN"
    using that clampTo_inside [of "SCREEN_WIDTH e" "(ex - originX - translateX s) / scale s"]
    by (simp add: logical_def)
  have inside_y: "0 \<le> point_y (logical e s originX originY ex ey)
      \<and> point_y (logical e s originX originY ex ey) \<le> SCREEN_HEIGHT e"
    if "0 \<le> SCREEN_HEIGHT e \<and> (ey - originY - translateY s) / scale s \<noteq> NaN"
    using that clampTo_inside [of "SCREEN_HEIGHT e" "(ey - originY - translateY s) / scale s"]
    by (simp add: logical_def)
  from web raw start update inside_x inside_y show ?thesis
    by metis
qed

text \<open>
  In the browser, with the canvas at (10, 20), after a pinch to the scale 2 and with no
  translation: a stroke started at (110, 220) and moved to (2000, 5) holds the points
  (50, 100) and (400, 0), the second on the border of the canvas of 400 by 800. When the
  lookup of the rectangle throws, (2000, 5) is kept as it is.
\<close>

theorem coordinate_conversion_witness:
  "platformOS browser = Web \<and> svgRef browser = Some (Rect 10 20)
   \<and> scale (run browser initial [PinchStart, PinchUpdate 2, PinchEnd]) = 2
   \<and> getCoordinates browser (run browser initial [PinchStart, PinchUpdate 2, PinchEnd]) 110 220
       = pt 50 100
   \<and> currentPath (run browser initial [PinchStart, PinchUpdate 2, PinchEnd, DrawStart 110 220])
       = Some (penStroke [pt 50 100])
   \<and> currentPath (run browser initial
        [PinchStart, PinchUpdate 2, PinchEnd, DrawStart 110 220, DrawUpdate 2000 5])
       = Some (penStroke [pt 50 100, pt 400 0])
   \<and> 0 \<le> SCREEN_WIDTH browser \<and> (400 :: number) \<le> SCREEN_WIDTH browser
   \<and> getCoordinates (browser\<lparr>svgRef := Some Throws\<rparr>)
        (run browser initial [PinchStart, PinchUpdate 2, PinchEnd]) 2000 5 = pt 2000 5"
proof -
  have env: "platformOS browser = Web \<and> svgRef browser = Some (Rect 10 20)"
    "0 \<le> SCREEN_WIDTH browser \<and> (400 :: number) \<le> SCREEN_WIDTH browser"
    by (simp_all add: browser_def number_simps)
  have sc: "scale (run browser initial [PinchStart, PinchUpdate 2, PinchEnd]) = 2"
    by (simp add: initial_def pinchStart_def pinchUpdate_def pinchEnd_def number_simps)
  have a: "getCoordinates browser (run browser initial [PinchStart, PinchUpdate 2, PinchEnd])
      110 220 = pt 50 100"
    using coordinate_conversion [of browser 10 20
        "run browser initial [PinchStart, PinchUpdate 2, PinchEnd]" 110 220]
    by (simp add: sample_defs pinchStart_def pinchUpdate_def pinchEnd_def logical_def
        clampTo_def number_simps)
  have b: "currentPath (run browser initial [PinchStart, PinchUpdate 2, PinchEnd, DrawStart 110 220])
      = Some (penStroke [pt 50 100])"
    "currentPath (run browser initial
        [PinchStart, PinchUpdate 2, PinchEnd, DrawStart 110 220, DrawUpdate 2000 5])
      = Some (penStroke [pt 50 100, pt 400 0])"
    by (simp_all add: sample_defs pinchStart_def pinchUpdate_def pinchEnd_def drawStart_def
        drawUpdate_def getCoordinates_def number_simps)
  have c: "getCoordinates (browser\<lparr>svgRef := Some Throws\<rparr>)
      (run browser initial [PinchStart, PinchUpdate 2, PinchEnd]) 2000 5 = pt 2000 5"
    using coordinate_conversion [of "browser\<lparr>svgRef := Some Throws\<rparr>" 0 0
        "run browser initial [PinchStart, PinchUpdate 2, PinchEnd]" 2000 5]
    by (simp add: sample_defs)
  from env sc a b c show ?thesis by simp
qed

text \<open>
  Where the quotient is NaN the clamp hands it on: in the browser, after a pinch update by
  NaN, the stored point is (NaN, NaN).
\<close>

lemma nan_scale_point:
  "getCoordinates browser (run browser initial [PinchStart, PinchUpdate NaN]) 110 220
     = pt NaN NaN"
  by (simp add: sample_defs pinchStart_def pinchUpdate_def getCoordinates_def number_simps)

subsection \<open>Rendering\<close>

text \<open>
  C8. A path with at least one point is rendered as an element whose \<open>d\<close> is the polyline of
  the specification, a move-to to the first point followed by a line-to for each later
  point in order and nothing else, whose fill is \<open>none\<close>, and whose stroke width is the width
  of the path divided by the current scale.
\<close>

theorem render_projection:
  "renderPath fmt s \<lparr>points = p # ps, color = c, width = w, type = t\<rparr> =
     Some \<lparr>d = polyline fmt p ps, stroke = c, strokeWidth = w / scale s,
           strokeLinecap = ''round'', strokeLinejoin = ''round'', fill = ''none''\<rparr>"
proof -
  have "reduce (reducer fmt) [] 0 (p # ps) = polyline fmt p ps"
    by (simp add: reduce_lineTo polyline_def) (simp add: reducer_def moveTo_def)
  then show ?thesis by (simp add: renderPath_def)
qed

text \<open>A path without points is not rendered.\<close>

lemma renderPath_empty: "points path = [] \<Longrightarrow> renderPath fmt s path = None"
  by (simp add: renderPath_def)

text \<open>A pen stroke through (1, 2), (3, 4) and (2, 1), seen at the scale 2.\<close>

theorem render_projection_witness:
  "renderPath digit (initial\<lparr>scale := 2\<rparr>)
     \<lparr>points = pt 1 2 # [pt 3 4, pt 2 1], color = ''black'', width = 2, type = Pen\<rparr> =
     Some \<lparr>d = ''M 1 2 L 3 4 L 2 1'', stroke = ''black'', strokeWidth = 1,
           strokeLinecap = ''round'', strokeLinejoin = ''round'', fill = ''none''\<rparr>"
  using render_projection [of digit "initial\<lparr>scale := 2\<rparr>" "pt 1 2" "[pt 3 4, pt 2 1]"
      "''black''" 2 Pen]
  by (simp add: polyline_def moveTo_def lineTo_def digit_def pt_def initial_def number_simps)

end
